theory Spec2Isabelle
  imports Complex_Main "HOL-Library.Sublist" "HOL-Library.AList"
begin

section \<open>SMID snapshot service: scoring, provider clients and fallback\<close>

text \<open>
  A shallow embedding of \<^verbatim>\<open>src/main.py\<close>: the scorer (\<^verbatim>\<open>score_company\<close>,
  \<^verbatim>\<open>stars_from_score\<close>), the primary client with retry and backoff
  (\<^verbatim>\<open>fetch_yahoo_info_with_retry\<close>), the fallback client (\<^verbatim>\<open>fmp_get\<close>,
  \<^verbatim>\<open>fetch_fmp_info\<close>) and the provider selection of \<^verbatim>\<open>get_company\<close>.

  Numbers are rationals: every finite Python int or float is one, and the thresholds
  are the decimal literals of the source read exactly. NaN and the rounding of float
  literals and products are outside the model; a float out of range is modelled where
  the source can reach it, in the backoff of the primary client. Exceptions are values
  of a sum type.
\<close>

subsection \<open>Scorer\<close>

text \<open>
  The metrics dict of \<^verbatim>\<open>get_company\<close> maps a key to a number or to \<^verbatim>\<open>None\<close>.
  \<^verbatim>\<open>m.get(k)\<close> is \<^verbatim>\<open>None\<close> both for a missing key and for a key stored with \<^verbatim>\<open>None\<close>.
\<close>

type_synonym metrics = "string \<rightharpoonup> rat option"

definition dict_get :: "metrics \<Rightarrow> string \<Rightarrow> rat option" where
  "dict_get m k = (case m k of None \<Rightarrow> None | Some v \<Rightarrow> v)"

text \<open>\<^verbatim>\<open>(v or 0) or 0\<close>: a falsy value (\<^verbatim>\<open>None\<close> or zero) becomes 0.\<close>

definition or_zero :: "rat option \<Rightarrow> rat" where
  "or_zero v = (case v of None \<Rightarrow> 0 | Some x \<Rightarrow> if x \<noteq> 0 then x else 0)"

text \<open>
  The seven additions to \<^verbatim>\<open>score\<close>, in the order of the source. A guard
  \<^verbatim>\<open>x is not None and x < c\<close> is the \<open>Some\<close> branch of a case.
\<close>

definition pe_points :: "rat option \<Rightarrow> int" where
  "pe_points pe =
     (case pe of None \<Rightarrow> 0
      | Some x \<Rightarrow> if x < 18 then 20 else if x < 25 then 10 else 0)"

definition peg_points :: "rat option \<Rightarrow> int" where
  "peg_points peg =
     (case peg of None \<Rightarrow> 0
      | Some x \<Rightarrow> if x \<le> 1.0 then 20 else if x \<le> 1.5 then 10 else 0)"

definition roic_points :: "rat \<Rightarrow> int" where
  "roic_points roic = (if roic \<ge> 0.12 then 20 else if roic \<ge> 0.08 then 10 else 0)"

definition opm_points :: "rat \<Rightarrow> int" where
  "opm_points opm = (if opm \<ge> 0.15 then 10 else if opm \<ge> 0.08 then 5 else 0)"

definition rev_points :: "rat \<Rightarrow> int" where
  "rev_points rev_yoy = (if rev_yoy \<ge> 0.20 then 15 else if rev_yoy \<ge> 0.12 then 8 else 0)"

definition eps_points :: "rat \<Rightarrow> int" where
  "eps_points eps_yoy = (if eps_yoy \<ge> 0.20 then 15 else if eps_yoy \<ge> 0.12 then 8 else 0)"

definition de_points :: "rat option \<Rightarrow> int" where
  "de_points de =
     (case de of None \<Rightarrow> 0
      | Some x \<Rightarrow> if x \<le> 0.5 then 10 else if x \<le> 1.0 then 5 else 0)"

text \<open>The value of \<^verbatim>\<open>score\<close> when the last addition is done, before the clamp.\<close>

definition score_sum :: "metrics \<Rightarrow> int" where
  "score_sum m =
     (let score = 0;
          pe = dict_get m ''pe_fwd''; peg = dict_get m ''peg_fwd'';
          score = score + pe_points pe;
          score = score + peg_points peg;
          roic = or_zero (dict_get m ''roic'');
          opm = or_zero (dict_get m ''op_margin'');
          score = score + roic_points roic;
          score = score + opm_points opm;
          rev_yoy = or_zero (dict_get m ''rev_yoy'');
          eps_yoy = or_zero (dict_get m ''eps_yoy'');
          score = score + rev_points rev_yoy;
          score = score + eps_points eps_yoy;
          de = dict_get m ''de_ratio'';
          score = score + de_points de
      in score)"

definition score_company :: "metrics \<Rightarrow> int" where
  "score_company m = max 0 (min 100 (score_sum m))"

text \<open>The seven keys that \<^verbatim>\<open>score_company\<close> reads.\<close>

definition scored_keys :: "string list" where
  "scored_keys =
     [''pe_fwd'', ''peg_fwd'', ''roic'', ''op_margin'', ''rev_yoy'', ''eps_yoy'', ''de_ratio'']"

text \<open>
  The glyphs are the two code points U+2605 and U+2606; a Python string counts code
  points, so the rendered text is a list over these two symbols.
\<close>

datatype glyph = Filled | Hollow

text \<open>
  The \<^verbatim>\<open>for\<close> loop of \<^verbatim>\<open>stars_from_score\<close> over the threshold table. Falling off
  the end of the loop returns \<^verbatim>\<open>None\<close>. A string times a negative count is empty.
\<close>

fun stars_loop :: "(int \<times> int) list \<Rightarrow> int \<Rightarrow> (int \<times> glyph list) option" where
  "stars_loop [] score = None"
| "stars_loop ((th, s) # rest) score =
     (if score \<ge> th
      then Some (s, replicate (nat s) Filled @ replicate (nat (5 - s)) Hollow)
      else stars_loop rest score)"

definition stars_from_score :: "int \<Rightarrow> (int \<times> glyph list) option" where
  "stars_from_score score = stars_loop [(80, 5), (60, 4), (40, 3), (20, 2), (0, 1)] score"

text \<open>Two concrete records: every scored field at its best threshold, and every field absent.\<close>

definition best_metrics :: metrics where
  "best_metrics =
     [''pe_fwd'' \<mapsto> Some 15, ''pe'' \<mapsto> None, ''peg_fwd'' \<mapsto> Some 0.9,
      ''gross_margin'' \<mapsto> None, ''op_margin'' \<mapsto> Some 0.18, ''rev_yoy'' \<mapsto> Some 0.25,
      ''eps_yoy'' \<mapsto> Some 0.22, ''roic'' \<mapsto> Some 0.14, ''de_ratio'' \<mapsto> Some 0.3]"

definition absent_metrics :: metrics where
  "absent_metrics =
     [''pe_fwd'' \<mapsto> None, ''pe'' \<mapsto> None, ''peg_fwd'' \<mapsto> None,
      ''gross_margin'' \<mapsto> None, ''op_margin'' \<mapsto> None, ''rev_yoy'' \<mapsto> None,
      ''eps_yoy'' \<mapsto> None, ''roic'' \<mapsto> None, ''de_ratio'' \<mapsto> None]"

subsection \<open>Payloads and exceptions\<close>

text \<open>
  A provider payload is parsed JSON; a Python dict is an association list with distinct
  keys, \<^verbatim>\<open>None\<close> is \<open>JNull\<close>.
\<close>

datatype json =
    JNull
  | JBool bool
  | JNum rat
  | JStr string
  | JArr "json list"
  | JObj "(string \<times> json) list"

type_synonym dict = "(string \<times> json) list"

text \<open>\<^verbatim>\<open>d.get(k)\<close> on a dict, and Python's truth value and \<^verbatim>\<open>or\<close>.\<close>

definition json_get :: "dict \<Rightarrow> string \<Rightarrow> json" where
  "json_get d k = (case map_of d k of None \<Rightarrow> JNull | Some v \<Rightarrow> v)"

fun truthy :: "json \<Rightarrow> bool" where
  "truthy JNull = False"
| "truthy (JBool b) = b"
| "truthy (JNum x) = (x \<noteq> 0)"
| "truthy (JStr s) = (s \<noteq> [])"
| "truthy (JArr xs) = (xs \<noteq> [])"
| "truthy (JObj kvs) = (kvs \<noteq> [])"

definition py_or :: "json \<Rightarrow> json \<Rightarrow> json" where
  "py_or a b = (if truthy a then a else b)"

text \<open>
  The exceptions that leave a function of the source. An \<^verbatim>\<open>HTTPException\<close> carries its
  status code and its detail; a detail built with an f-string keeps the interpolated
  value instead of its rendering. \<open>RequestError\<close> is any exception of the outbound
  request (\<^verbatim>\<open>requests.get\<close>, \<^verbatim>\<open>raise_for_status\<close>, \<^verbatim>\<open>r.json\<close>), kept by its message.
  \<^verbatim>\<open>HTTPException\<close> is a subclass of \<^verbatim>\<open>Exception\<close>, so \<^verbatim>\<open>except Exception\<close>
  catches every constructor below.
\<close>

datatype exn =
    HTTPException int detail
  | RequestError string
  | ValueError string
  | OverflowError
  | AttributeError
and detail =
    Yahoo_blocked
  | Yahoo_failed string
  | FMP_key_not_set
  | FMP_profile_error exn

subsection \<open>Primary client with retry and backoff\<close>

text \<open>
  One call of \<^verbatim>\<open>t.get_info()\<close> returns a payload or raises; an exception is kept as
  \<^verbatim>\<open>str(e)\<close>, the only thing the client reads of it. The provider is the sequence of
  its replies, indexed by the number of calls made before.
\<close>

datatype reply = Returns dict | Raises string

text \<open>
  What the client does to the outside, in order: a call of the provider, or a sleep
  that was carried out, with its duration in seconds. \<open>calls\<close> counts the calls of a
  trace and \<open>slept\<close> lists its sleeps.
\<close>

datatype event = Call | Sleep rat

fun calls :: "event list \<Rightarrow> nat" where
  "calls [] = 0"
| "calls (Call # es) = Suc (calls es)"
| "calls (Sleep secs # es) = calls es"


text \<open>The membership test \<^verbatim>\<open>s in msg\<close> on strings is \<^const>\<open>sublist\<close>.\<close>

definition transient :: "string \<Rightarrow> bool" where
  "transient msg =
     list_ex (\<lambda>s. sublist s msg)
       [''429'', ''Too Many Requests'', ''Invalid Crumb'', ''timed out'', ''Max retries'', ''EOF'']"

definition rate_limited :: "string \<Rightarrow> bool" where
  "rate_limited msg =
     (sublist ''429'' msg \<or> sublist ''Too Many Requests'' msg \<or> sublist ''Invalid Crumb'' msg)"

text \<open>
  The body of the \<^verbatim>\<open>try\<close>: a truthy payload is returned, an empty one raises
  \<^verbatim>\<open>ValueError("Empty info payload")\<close> into the handler, like any exception of the call.
\<close>

definition try_get_info :: "reply \<Rightarrow> string + dict" where
  "try_get_info r =
     (case r of
        Returns info \<Rightarrow> if info \<noteq> [] then Inr info else Inl ''Empty info payload''
      | Raises msg \<Rightarrow> Inl msg)"

text \<open>
  The argument of the sleep, \<^verbatim>\<open>base_sleep * (2 ** attempt)\<close>, with \<^verbatim>\<open>base_sleep\<close> a
  float: the integer power is converted to a float, which raises \<^verbatim>\<open>OverflowError\<close>
  from \<open>2 ** 1024\<close> on.
\<close>

definition backoff :: "rat \<Rightarrow> int \<Rightarrow> exn + rat" where
  "backoff base_sleep attempt =
     (if 1024 \<le> attempt then Inl OverflowError else Inr (base_sleep * 2 ^ nat attempt))"

text \<open>
  \<^verbatim>\<open>time.sleep\<close> converts its argument to a signed 64-bit count of nanoseconds and
  raises \<^verbatim>\<open>OverflowError\<close> when that is out of range, a float product that overflowed
  to an infinity included; then it raises \<^verbatim>\<open>ValueError\<close> on a negative duration.
  \<open>None\<close> is a sleep carried out. The range ends at \<open>2 ^ 63\<close> nanoseconds; how a
  float within one rounding step of that end is treated is outside the model.
\<close>

definition sleep_max :: rat where
  "sleep_max = 2 ^ 63 / 10 ^ 9"

definition time_sleep :: "rat \<Rightarrow> exn option" where
  "time_sleep secs =
     (if sleep_max \<le> secs \<or> secs \<le> - sleep_max then Some OverflowError
      else if secs < 0 then Some (ValueError ''sleep length must be non-negative'')
      else None)"

text \<open>
  How the \<^verbatim>\<open>for\<close> loop ends: by \<^verbatim>\<open>return\<close>, by \<^verbatim>\<open>break\<close> or exhaustion with the
  current \<^verbatim>\<open>last_err\<close>, or by an exception raised inside the handler, which leaves
  the function.
\<close>

datatype loop_exit = Returned dict | Ended "string option" | Raised exn

fun attempts ::
  "(nat \<Rightarrow> reply) \<Rightarrow> int \<Rightarrow> rat \<Rightarrow> int list \<Rightarrow> string option \<Rightarrow> event list
    \<Rightarrow> loop_exit \<times> event list"
where
  "attempts get_info max_retries base_sleep [] last_err tr = (Ended last_err, tr)"
| "attempts get_info max_retries base_sleep (attempt # rest) last_err tr =
     (let tr1 = tr @ [Call] in
      case try_get_info (get_info (calls tr)) of
        Inr info \<Rightarrow> (Returned info, tr1)
      | Inl msg \<Rightarrow>
          if attempt < max_retries - 1 \<and> transient msg
          then
            (case backoff base_sleep attempt of
               Inl e \<Rightarrow> (Raised e, tr1)
             | Inr secs \<Rightarrow>
                 (case time_sleep secs of
                    Some e \<Rightarrow> (Raised e, tr1)
                  | None \<Rightarrow>
                      attempts get_info max_retries base_sleep rest (Some msg)
                        (tr1 @ [Sleep secs])))
          else (Ended (Some msg), tr1))"

text \<open>\<^verbatim>\<open>str(last_err)\<close>, and the two \<^verbatim>\<open>raise\<close> statements after the loop.\<close>

definition str_err :: "string option \<Rightarrow> string" where
  "str_err last_err = (case last_err of None \<Rightarrow> ''None'' | Some msg \<Rightarrow> msg)"

definition raise_after_loop :: "string option \<Rightarrow> exn" where
  "raise_after_loop last_err =
     (if rate_limited (str_err last_err) then HTTPException 429 Yahoo_blocked
      else HTTPException 502 (Yahoo_failed (str_err last_err)))"

text \<open>
  \<^verbatim>\<open>range(max_retries)\<close> is the list \<open>[0..max_retries - 1]\<close>, empty when
  \<open>max_retries \<le> 0\<close>. The handle \<^verbatim>\<open>t\<close> returned beside the payload is the provider
  itself and is left out of the result.
\<close>

definition fetch_yahoo_info_with_retry ::
  "(nat \<Rightarrow> reply) \<Rightarrow> int \<Rightarrow> rat \<Rightarrow> (exn + dict) \<times> event list"
where
  "fetch_yahoo_info_with_retry get_info max_retries base_sleep =
     (case attempts get_info max_retries base_sleep [0..max_retries - 1] None [] of
        (Returned info, tr) \<Rightarrow> (Inr info, tr)
      | (Ended last_err, tr) \<Rightarrow> (Inl (raise_after_loop last_err), tr)
      | (Raised e, tr) \<Rightarrow> (Inl e, tr))"


subsection \<open>Fallback client\<close>

text \<open>
  The outbound request of \<^verbatim>\<open>fmp_get\<close> (\<^verbatim>\<open>requests.get\<close>, \<^verbatim>\<open>raise_for_status\<close>,
  \<^verbatim>\<open>r.json\<close>) is a function of the URL and the query parameters that gives the parsed
  body or the message of the exception raised.
\<close>

type_synonym http = "string \<Rightarrow> (string \<times> string) list \<Rightarrow> string + json"

definition FMP_BASE :: string where
  "FMP_BASE = ''https://financialmodelingprep.com/api/v3''"

text \<open>\<^verbatim>\<open>not FMP_KEY\<close> holds for an unset variable and for an empty one.\<close>

definition fmp_get ::
  "string option \<Rightarrow> http \<Rightarrow> string \<Rightarrow> (string \<times> string) list option \<Rightarrow> exn + json"
where
  "fmp_get FMP_KEY requests_get path params =
     (case FMP_KEY of
        None \<Rightarrow> Inl (HTTPException 503 FMP_key_not_set)
      | Some key \<Rightarrow>
          if key = [] then Inl (HTTPException 503 FMP_key_not_set)
          else
            (let params = AList.update ''apikey'' key (case params of None \<Rightarrow> [] | Some ps \<Rightarrow> ps);
                 url = FMP_BASE @ path
             in case requests_get url params of
                  Inl msg \<Rightarrow> Inl (RequestError msg)
                | Inr data \<Rightarrow> Inr data))"

text \<open>\<^verbatim>\<open>x[0] if isinstance(x, list) and x else {}\<close>\<close>

fun first_or_empty :: "json \<Rightarrow> json" where
  "first_or_empty (JArr (x # xs)) = x"
| "first_or_empty other = JObj []"

text \<open>
  The two absorbing \<^verbatim>\<open>try\<close> blocks are \<open>absorbed\<close>. The dict literal calls \<^verbatim>\<open>.get\<close>
  on \<^verbatim>\<open>profile\<close>, \<^verbatim>\<open>ratios\<close> and \<^verbatim>\<open>growth\<close> outside every \<^verbatim>\<open>try\<close>: a first element
  that is not an object raises \<^verbatim>\<open>AttributeError\<close> there.
\<close>

definition absorbed :: "exn + json \<Rightarrow> json" where
  "absorbed r = (case r of Inl e \<Rightarrow> JObj [] | Inr data \<Rightarrow> first_or_empty data)"

definition fetch_fmp_info :: "string option \<Rightarrow> http \<Rightarrow> string \<Rightarrow> exn + dict" where
  "fetch_fmp_info FMP_KEY requests_get ticker =
     (case fmp_get FMP_KEY requests_get (''/profile/'' @ ticker) None of
        Inl e \<Rightarrow> Inl (HTTPException 502 (FMP_profile_error e))
      | Inr data \<Rightarrow>
          (let profile = first_or_empty data;
               ratios = absorbed (fmp_get FMP_KEY requests_get (''/ratios-ttm/'' @ ticker) None);
               growth = absorbed (fmp_get FMP_KEY requests_get (''/financial-growth/'' @ ticker) None)
           in case (profile, ratios, growth) of
                (JObj profile, JObj ratios, JObj growth) \<Rightarrow>
                  Inr [(''longName'', py_or (json_get profile ''companyName'') (json_get profile ''symbol'')),
                       (''currentPrice'', json_get profile ''price''),
                       (''marketCap'', json_get profile ''mktCap''),
                       (''forwardPE'', json_get ratios ''priceEarningsRatioTTM''),
                       (''pegRatio'', JNull),
                       (''grossMargins'', json_get ratios ''grossProfitMarginTTM''),
                       (''operatingMargins'', json_get ratios ''operatingProfitMarginTTM''),
                       (''revenueGrowth'', json_get growth ''revenueGrowthTTM''),
                       (''earningsGrowth'', json_get growth ''epsgrowthTTM''),
                       (''returnOnEquity'', json_get ratios ''returnOnEquityTTM''),
                       (''returnOnCapitalEmployed'',
                          py_or (json_get ratios ''returnOnCapitalEmployedTTM'')
                                (json_get ratios ''returnOnInvestedCapitalTTM'')),
                       (''debtToEquity'', json_get ratios ''debtEquityRatioTTM''),
                       (''cik'', json_get profile ''cik'')]
              | other \<Rightarrow> Inl AttributeError))"

subsection \<open>Provider selection of the endpoint\<close>

text \<open>
  \<^verbatim>\<open>get_company\<close> calls the primary client with its default arguments and switches
  to the fallback client on an \<^verbatim>\<open>HTTPException\<close>; any other exception leaves the
  endpoint. What follows the choice of the provider (field selection, metrics, filing
  lookup, scoring and the response) is the parameter \<open>respond\<close>, given the flag
  \<^verbatim>\<open>use_fmp\<close>, the ticker and the payload.
\<close>

definition get_company ::
  "(string \<Rightarrow> nat \<Rightarrow> reply) \<Rightarrow> string option \<Rightarrow> http
    \<Rightarrow> (bool \<Rightarrow> string \<Rightarrow> dict \<Rightarrow> exn + 'snapshot) \<Rightarrow> string \<Rightarrow> exn + 'snapshot"
where
  "get_company yf FMP_KEY requests_get respond ticker =
     (case fst (fetch_yahoo_info_with_retry (yf ticker) 4 1.5) of
        Inr info \<Rightarrow> respond False ticker info
      | Inl (HTTPException status_code detail) \<Rightarrow>
          (case fetch_fmp_info FMP_KEY requests_get ticker of
             Inl e \<Rightarrow> Inl e
           | Inr info \<Rightarrow> respond True ticker info)
      | Inl e \<Rightarrow> Inl e)"

subsection \<open>Concrete providers and payloads\<close>


definition always_blocked :: "nat \<Rightarrow> reply" where
  "always_blocked i = Raises ''HTTP Error 429: Too Many Requests''"





text \<open>
  Bodies of the three fallback sub-requests for the ticker ACME, and a fallback
  provider that serves each of them or fails it with a server error.
\<close>

definition acme_profile :: dict where
  "acme_profile =
     [(''symbol'', JStr ''ACME''), (''companyName'', JStr ''Acme Corp''), (''price'', JNum 50),
      (''mktCap'', JNum 1000000000), (''cik'', JStr ''0000123456'')]"

definition acme_ratios :: dict where
  "acme_ratios =
     [(''priceEarningsRatioTTM'', JNum 15), (''operatingProfitMarginTTM'', JNum 0.18),
      (''returnOnCapitalEmployedTTM'', JNum 0.14), (''debtEquityRatioTTM'', JNum 0.3)]"

definition acme_growth :: dict where
  "acme_growth = [(''revenueGrowthTTM'', JNum 0.25), (''epsgrowthTTM'', JNum 0.22)]"

definition fmp_serving :: "bool \<Rightarrow> bool \<Rightarrow> bool \<Rightarrow> http" where
  "fmp_serving profile_up ratios_up growth_up url params =
     (if url = FMP_BASE @ ''/profile/ACME''
      then (if profile_up then Inr (JArr [JObj acme_profile]) else Inl ''500 Server Error'')
      else if url = FMP_BASE @ ''/ratios-ttm/ACME''
      then (if ratios_up then Inr (JArr [JObj acme_ratios]) else Inl ''500 Server Error'')
      else if url = FMP_BASE @ ''/financial-growth/ACME''
      then (if growth_up then Inr (JArr [JObj acme_growth]) else Inl ''500 Server Error'')
      else Inl ''404 Not Found'')"

section \<open>Properties of the scorer\<close>

subsection \<open>Auxiliary facts\<close>

lemma score_sum_unfold:
  "score_sum m =
     pe_points (dict_get m ''pe_fwd'') + peg_points (dict_get m ''peg_fwd'')
     + roic_points (or_zero (dict_get m ''roic'')) + opm_points (or_zero (dict_get m ''op_margin''))
     + rev_points (or_zero (dict_get m ''rev_yoy'')) + eps_points (or_zero (dict_get m ''eps_yoy''))
     + de_points (dict_get m ''de_ratio'')"
  by (simp add: score_sum_def Let_def)

lemma or_zero_Some [simp]: "or_zero (Some x) = x"
  by (simp add: or_zero_def)

lemma or_zero_None [simp]: "or_zero None = 0"
  by (simp add: or_zero_def)

lemma pe_points_bounds: "0 \<le> pe_points v \<and> pe_points v \<le> 20"
  by (simp add: pe_points_def split: option.split)

lemma peg_points_bounds: "0 \<le> peg_points v \<and> peg_points v \<le> 20"
  by (simp add: peg_points_def split: option.split)

lemma roic_points_bounds: "0 \<le> roic_points x \<and> roic_points x \<le> 20"
  by (simp add: roic_points_def)

lemma opm_points_bounds: "0 \<le> opm_points x \<and> opm_points x \<le> 10"
  by (simp add: opm_points_def)

lemma rev_points_bounds: "0 \<le> rev_points x \<and> rev_points x \<le> 15"
  by (simp add: rev_points_def)

lemma eps_points_bounds: "0 \<le> eps_points x \<and> eps_points x \<le> 15"
  by (simp add: eps_points_def)

lemma de_points_bounds: "0 \<le> de_points v \<and> de_points v \<le> 10"
  by (simp add: de_points_def split: option.split)

lemma score_sum_bounds: "0 \<le> score_sum m \<and> score_sum m \<le> 110"
  using pe_points_bounds [of "dict_get m ''pe_fwd''"]
    peg_points_bounds [of "dict_get m ''peg_fwd''"]
    roic_points_bounds [of "or_zero (dict_get m ''roic'')"]
    opm_points_bounds [of "or_zero (dict_get m ''op_margin'')"]
    rev_points_bounds [of "or_zero (dict_get m ''rev_yoy'')"]
    eps_points_bounds [of "or_zero (dict_get m ''eps_yoy'')"]
    de_points_bounds [of "dict_get m ''de_ratio''"]
  unfolding score_sum_unfold by linarith

lemma score_sum_best: "score_sum best_metrics = 110"
  by (simp add: score_sum_unfold best_metrics_def dict_get_def pe_points_def peg_points_def
      roic_points_def opm_points_def rev_points_def eps_points_def de_points_def)

lemma stars_from_score_100:
  "stars_from_score 100 = Some (5, [Filled, Filled, Filled, Filled, Filled])"
  by (simp add: stars_from_score_def numeral_eq_Suc)

lemma stars_from_score_0:
  "stars_from_score 0 = Some (1, [Filled, Hollow, Hollow, Hollow, Hollow])"
  by (simp add: stars_from_score_def numeral_eq_Suc)

lemma clamp_mono: "a \<le> b \<Longrightarrow> max 0 (min 100 a) \<le> max (0::int) (min 100 b)"
  by simp

lemma dict_get_upd_same [simp]: "dict_get (m(k \<mapsto> v)) k = v"
  by (simp add: dict_get_def)

lemma dict_get_upd_other [simp]: "k' \<noteq> k \<Longrightarrow> dict_get (m(k \<mapsto> v)) k' = dict_get m k'"
  by (simp add: dict_get_def)

lemma pe_points_antimono: "lo \<le> hi \<Longrightarrow> pe_points (Some hi) \<le> pe_points (Some lo)"
  by (simp add: pe_points_def)

lemma peg_points_antimono: "lo \<le> hi \<Longrightarrow> peg_points (Some hi) \<le> peg_points (Some lo)"
  by (simp add: peg_points_def)

lemma de_points_antimono: "lo \<le> hi \<Longrightarrow> de_points (Some hi) \<le> de_points (Some lo)"
  by (simp add: de_points_def)

lemma roic_points_mono: "lo \<le> hi \<Longrightarrow> roic_points lo \<le> roic_points hi"
  by (simp add: roic_points_def)

lemma opm_points_mono: "lo \<le> hi \<Longrightarrow> opm_points lo \<le> opm_points hi"
  by (simp add: opm_points_def)

lemma rev_points_mono: "lo \<le> hi \<Longrightarrow> rev_points lo \<le> rev_points hi"
  by (simp add: rev_points_def)

lemma eps_points_mono: "lo \<le> hi \<Longrightarrow> eps_points lo \<le> eps_points hi"
  by (simp add: eps_points_def)

lemma stars_loop_table:
  assumes "0 \<le> score"
  shows "\<exists>s. stars_from_score score
        = Some (s, replicate (nat s) Filled @ replicate (nat (5 - s)) Hollow)
      \<and> 1 \<le> s \<and> s \<le> 5"
  using assms by (simp add: stars_from_score_def)

lemma glyph_length: "1 \<le> s \<Longrightarrow> s \<le> 5
  \<Longrightarrow> length (replicate (nat s) Filled @ replicate (nat (5 - s)) Hollow) = 5"
  by simp

subsection \<open>Claims about the scorer\<close>

text \<open>
  C3, as stated, fails: the best record of the scoring table sums to 110 before the
  clamp, which is above 100, and the clamp changes the result there.
\<close>

theorem sum_before_clamp_counterexample:
  "score_sum best_metrics = 110 \<and> \<not> score_sum best_metrics \<le> 100
   \<and> score_company best_metrics \<noteq> score_sum best_metrics"
  by (simp add: score_company_def score_sum_best)

text \<open>
  C3, amended: for every metrics record the sum of the seven contributions before the
  clamp lies between 0 and 110, and \<^verbatim>\<open>score_company\<close> returns the smaller of 100 and
  that sum; the lower clamp at 0 never acts.
\<close>

theorem sum_before_clamp_bound:
  "0 \<le> score_sum m \<and> score_sum m \<le> 110 \<and> score_company m = min 100 (score_sum m)"
  using score_sum_bounds [of m] by (simp add: score_company_def)

text \<open>
  C6: when every scored field meets its best threshold, \<^verbatim>\<open>score_company\<close> returns
  exactly 100 and \<^verbatim>\<open>stars_from_score\<close> maps it to 5 stars, five filled glyphs.
\<close>

theorem score_company_best:
  assumes "dict_get m ''pe_fwd'' = Some pe" and "pe < 18"
    and "dict_get m ''peg_fwd'' = Some peg" and "peg \<le> 1.0"
    and "dict_get m ''roic'' = Some roic" and "roic \<ge> 0.12"
    and "dict_get m ''op_margin'' = Some opm" and "opm \<ge> 0.15"
    and "dict_get m ''rev_yoy'' = Some rev_yoy" and "rev_yoy \<ge> 0.20"
    and "dict_get m ''eps_yoy'' = Some eps_yoy" and "eps_yoy \<ge> 0.20"
    and "dict_get m ''de_ratio'' = Some de" and "de \<le> 0.5"
  shows "score_company m = 100
    \<and> stars_from_score (score_company m) = Some (5, [Filled, Filled, Filled, Filled, Filled])"
proof -
  have "score_sum m = 110"
    using assms
    by (simp add: score_sum_unfold pe_points_def peg_points_def roic_points_def
        opm_points_def rev_points_def eps_points_def de_points_def)
  then have "score_company m = 100"
    by (simp add: score_company_def)
  then show ?thesis
    by (simp add: stars_from_score_100)
qed

text \<open>The record \<open>best_metrics\<close> meets every hypothesis of C6.\<close>

theorem score_company_best_witness:
  "dict_get best_metrics ''pe_fwd'' = Some 15 \<and> (15::rat) < 18
   \<and> dict_get best_metrics ''peg_fwd'' = Some 0.9 \<and> (0.9::rat) \<le> 1.0
   \<and> dict_get best_metrics ''roic'' = Some 0.14 \<and> (0.14::rat) \<ge> 0.12
   \<and> dict_get best_metrics ''op_margin'' = Some 0.18 \<and> (0.18::rat) \<ge> 0.15
   \<and> dict_get best_metrics ''rev_yoy'' = Some 0.25 \<and> (0.25::rat) \<ge> 0.20
   \<and> dict_get best_metrics ''eps_yoy'' = Some 0.22 \<and> (0.22::rat) \<ge> 0.20
   \<and> dict_get best_metrics ''de_ratio'' = Some 0.3 \<and> (0.3::rat) \<le> 0.5
   \<and> score_company best_metrics = 100
   \<and> stars_from_score (score_company best_metrics)
       = Some (5, [Filled, Filled, Filled, Filled, Filled])"
proof -
  have hyps: "dict_get best_metrics ''pe_fwd'' = Some 15 \<and> (15::rat) < 18
   \<and> dict_get best_metrics ''peg_fwd'' = Some 0.9 \<and> (0.9::rat) \<le> 1.0
   \<and> dict_get best_metrics ''roic'' = Some 0.14 \<and> (0.14::rat) \<ge> 0.12
   \<and> dict_get best_metrics ''op_margin'' = Some 0.18 \<and> (0.18::rat) \<ge> 0.15
   \<and> dict_get best_metrics ''rev_yoy'' = Some 0.25 \<and> (0.25::rat) \<ge> 0.20
   \<and> dict_get best_metrics ''eps_yoy'' = Some 0.22 \<and> (0.22::rat) \<ge> 0.20
   \<and> dict_get best_metrics ''de_ratio'' = Some 0.3 \<and> (0.3::rat) \<le> 0.5"
    by (simp add: best_metrics_def dict_get_def)
  have "score_company best_metrics = 100
    \<and> stars_from_score (score_company best_metrics)
       = Some (5, [Filled, Filled, Filled, Filled, Filled])"
    by (rule score_company_best [of best_metrics 15 "0.9" "0.14" "0.18" "0.25" "0.22" "0.3"])
      (simp_all add: best_metrics_def dict_get_def)
  with hyps show ?thesis
    by blast
qed

text \<open>
  C7, as stated, fails in its glyph: with every field absent the score is 0 and the
  rating is 1 star, whose text is one filled glyph followed by four hollow ones, not
  five hollow ones.
\<close>

theorem score_company_absent_counterexample:
  "score_company absent_metrics = 0
   \<and> stars_from_score (score_company absent_metrics)
       = Some (1, [Filled, Hollow, Hollow, Hollow, Hollow])
   \<and> stars_from_score (score_company absent_metrics)
       \<noteq> Some (1, [Hollow, Hollow, Hollow, Hollow, Hollow])"
  by (simp add: score_company_def score_sum_unfold absent_metrics_def dict_get_def
      pe_points_def peg_points_def roic_points_def opm_points_def rev_points_def
      eps_points_def de_points_def stars_from_score_0)

text \<open>
  C7, amended: for every metrics record in which every field is absent,
  \<^verbatim>\<open>score_company\<close> returns exactly 0 and \<^verbatim>\<open>stars_from_score\<close> maps it to 1 star
  with one filled glyph followed by four hollow glyphs.
\<close>

theorem score_company_absent:
  assumes "\<forall>k. dict_get m k = None"
  shows "score_company m = 0
    \<and> stars_from_score (score_company m) = Some (1, [Filled, Hollow, Hollow, Hollow, Hollow])"
proof -
  have "score_sum m = 0"
    using assms
    by (simp add: score_sum_unfold pe_points_def peg_points_def roic_points_def
        opm_points_def rev_points_def eps_points_def de_points_def)
  then have "score_company m = 0"
    by (simp add: score_company_def)
  then show ?thesis
    by (simp add: stars_from_score_0)
qed

text \<open>The record \<open>absent_metrics\<close> has every field absent.\<close>

theorem score_company_absent_witness:
  "(\<forall>k. dict_get absent_metrics k = None) \<and> score_company absent_metrics = 0
   \<and> stars_from_score (score_company absent_metrics)
       = Some (1, [Filled, Hollow, Hollow, Hollow, Hollow])"
proof -
  have h: "\<forall>k. dict_get absent_metrics k = None"
    by (simp add: absent_metrics_def dict_get_def)
  show ?thesis
    using h score_company_absent [OF h] by blast
qed

text \<open>
  C8: with all other fields fixed, lowering forward P/E, forward PEG or D/E, or raising
  ROIC, operating margin, revenue growth or EPS growth, never decreases the result of
  \<^verbatim>\<open>score_company\<close>.
\<close>

theorem score_company_monotone:
  assumes "lo \<le> hi"
  shows "score_company (m(''pe_fwd'' \<mapsto> Some hi)) \<le> score_company (m(''pe_fwd'' \<mapsto> Some lo))
    \<and> score_company (m(''peg_fwd'' \<mapsto> Some hi)) \<le> score_company (m(''peg_fwd'' \<mapsto> Some lo))
    \<and> score_company (m(''de_ratio'' \<mapsto> Some hi)) \<le> score_company (m(''de_ratio'' \<mapsto> Some lo))
    \<and> score_company (m(''roic'' \<mapsto> Some lo)) \<le> score_company (m(''roic'' \<mapsto> Some hi))
    \<and> score_company (m(''op_margin'' \<mapsto> Some lo)) \<le> score_company (m(''op_margin'' \<mapsto> Some hi))
    \<and> score_company (m(''rev_yoy'' \<mapsto> Some lo)) \<le> score_company (m(''rev_yoy'' \<mapsto> Some hi))
    \<and> score_company (m(''eps_yoy'' \<mapsto> Some lo)) \<le> score_company (m(''eps_yoy'' \<mapsto> Some hi))"
proof -
  have pe: "score_sum (m(''pe_fwd'' \<mapsto> Some hi)) \<le> score_sum (m(''pe_fwd'' \<mapsto> Some lo))"
    using pe_points_antimono [OF assms] by (simp add: score_sum_unfold)
  have peg: "score_sum (m(''peg_fwd'' \<mapsto> Some hi)) \<le> score_sum (m(''peg_fwd'' \<mapsto> Some lo))"
    using peg_points_antimono [OF assms] by (simp add: score_sum_unfold)
  have de: "score_sum (m(''de_ratio'' \<mapsto> Some hi)) \<le> score_sum (m(''de_ratio'' \<mapsto> Some lo))"
    using de_points_antimono [OF assms] by (simp add: score_sum_unfold)
  have roic: "score_sum (m(''roic'' \<mapsto> Some lo)) \<le> score_sum (m(''roic'' \<mapsto> Some hi))"
    using roic_points_mono [OF assms] by (simp add: score_sum_unfold)
  have opm: "score_sum (m(''op_margin'' \<mapsto> Some lo)) \<le> score_sum (m(''op_margin'' \<mapsto> Some hi))"
    using opm_points_mono [OF assms] by (simp add: score_sum_unfold)
  have rev: "score_sum (m(''rev_yoy'' \<mapsto> Some lo)) \<le> score_sum (m(''rev_yoy'' \<mapsto> Some hi))"
    using rev_points_mono [OF assms] by (simp add: score_sum_unfold)
  have eps: "score_sum (m(''eps_yoy'' \<mapsto> Some lo)) \<le> score_sum (m(''eps_yoy'' \<mapsto> Some hi))"
    using eps_points_mono [OF assms] by (simp add: score_sum_unfold)
  show ?thesis
    unfolding score_company_def
    using clamp_mono [OF pe] clamp_mono [OF peg] clamp_mono [OF de] clamp_mono [OF roic]
      clamp_mono [OF opm] clamp_mono [OF rev] clamp_mono [OF eps]
    by blast
qed

text \<open>C8 at 17 and 30, on either side of the P/E thresholds.\<close>

theorem score_company_monotone_witness:
  "(17::rat) \<le> 30
   \<and> score_company (absent_metrics(''pe_fwd'' \<mapsto> Some 30)) \<le> score_company (absent_metrics(''pe_fwd'' \<mapsto> Some 17))
   \<and> score_company (absent_metrics(''roic'' \<mapsto> Some 17)) \<le> score_company (absent_metrics(''roic'' \<mapsto> Some 30))"
proof -
  have h: "(17::rat) \<le> 30"
    by simp
  show ?thesis
    using h score_company_monotone [OF h, of absent_metrics] by blast
qed

text \<open>
  C9: the result of \<^verbatim>\<open>score_company\<close> lies in [0,100]; for every score in that range
  \<^verbatim>\<open>stars_from_score\<close> returns a star count in [1,5] and a text of length exactly 5,
  made of that many filled glyphs followed by hollow ones.
\<close>

theorem score_and_stars_range:
  "0 \<le> score_company m \<and> score_company m \<le> 100
   \<and> (\<forall>score. 0 \<le> score \<and> score \<le> 100 \<longrightarrow>
        (\<exists>s g. stars_from_score score = Some (s, g) \<and> 1 \<le> s \<and> s \<le> 5 \<and> length g = 5
           \<and> g = replicate (nat s) Filled @ replicate (nat (5 - s)) Hollow))"
proof -
  have range: "0 \<le> score_company m \<and> score_company m \<le> 100"
    by (simp add: score_company_def)
  have stars: "\<exists>s g. stars_from_score score = Some (s, g) \<and> 1 \<le> s \<and> s \<le> 5 \<and> length g = 5
           \<and> g = replicate (nat s) Filled @ replicate (nat (5 - s)) Hollow"
    if pos: "0 \<le> score" for score
  proof -
    obtain s where s: "stars_from_score score
        = Some (s, replicate (nat s) Filled @ replicate (nat (5 - s)) Hollow)"
      "1 \<le> s" "s \<le> 5"
      using stars_loop_table [OF pos] by blast
    from s(2,3) have "length (replicate (nat s) Filled @ replicate (nat (5 - s)) Hollow) = 5"
      by (rule glyph_length)
    with s show ?thesis
      by blast
  qed
  from range stars show ?thesis
    by blast
qed

text \<open>C9 at the best record and at the score 55.\<close>

theorem score_and_stars_range_witness:
  "0 \<le> score_company best_metrics \<and> score_company best_metrics \<le> 100
   \<and> (0::int) \<le> 55 \<and> (55::int) \<le> 100
   \<and> (\<exists>s g. stars_from_score 55 = Some (s, g) \<and> 1 \<le> s \<and> s \<le> 5 \<and> length g = 5
           \<and> g = replicate (nat s) Filled @ replicate (nat (5 - s)) Hollow)"
proof -
  have h: "(0::int) \<le> 55 \<and> (55::int) \<le> 100"
    by simp
  show ?thesis
    using h score_and_stars_range [of best_metrics] by blast
qed

text \<open>
  C10: two metrics records that agree on the seven scored keys get the same score, so
  \<^verbatim>\<open>gross_margin\<close>, \<^verbatim>\<open>pe\<close> and any other key never influence it.
\<close>

theorem score_company_scored_keys_only:
  assumes "\<forall>k \<in> set scored_keys. dict_get m1 k = dict_get m2 k"
  shows "score_company m1 = score_company m2"
proof -
  from assms have "score_sum m1 = score_sum m2"
    by (simp add: score_sum_unfold scored_keys_def)
  then show ?thesis
    by (simp add: score_company_def)
qed

text \<open>C10 at the best record, with \<^verbatim>\<open>gross_margin\<close> and \<^verbatim>\<open>pe\<close> changed.\<close>

theorem score_company_scored_keys_only_witness:
  "dict_get best_metrics ''pe_fwd''
     = dict_get (best_metrics(''gross_margin'' \<mapsto> Some 0.4, ''pe'' \<mapsto> Some 30)) ''pe_fwd''
   \<and> dict_get best_metrics ''de_ratio''
     = dict_get (best_metrics(''gross_margin'' \<mapsto> Some 0.4, ''pe'' \<mapsto> Some 30)) ''de_ratio''
   \<and> dict_get best_metrics ''gross_margin''
     \<noteq> dict_get (best_metrics(''gross_margin'' \<mapsto> Some 0.4, ''pe'' \<mapsto> Some 30)) ''gross_margin''
   \<and> score_company best_metrics
     = score_company (best_metrics(''gross_margin'' \<mapsto> Some 0.4, ''pe'' \<mapsto> Some 30))"
proof -
  have h: "\<forall>k \<in> set scored_keys.
      dict_get best_metrics k
      = dict_get (best_metrics(''gross_margin'' \<mapsto> Some 0.4, ''pe'' \<mapsto> Some 30)) k"
    by (simp add: scored_keys_def)
  have "dict_get best_metrics ''gross_margin''
     \<noteq> dict_get (best_metrics(''gross_margin'' \<mapsto> Some 0.4, ''pe'' \<mapsto> Some 30)) ''gross_margin''"
    by (simp add: best_metrics_def dict_get_def)
  then show ?thesis
    using h score_company_scored_keys_only [OF h] by (simp add: scored_keys_def)
qed

section \<open>Properties of the provider clients\<close>

subsection \<open>Auxiliary facts about the clients\<close>

lemma sublist_Cons_Cons:
  "sublist (x # xs) (y # ys) \<longleftrightarrow> (x = y \<and> prefix xs ys) \<or> sublist (x # xs) ys"
  by (simp add: sublist_Cons_right)













text \<open>
  A sleep that \<^verbatim>\<open>time.sleep\<close> refuses leaves the client from inside the handler, after
  the one call made so far: here the first backoff of ten billion seconds.
\<close>

lemma sleep_overflow_leaves_client:
  "fetch_yahoo_info_with_retry always_blocked 2 10000000000 = (Inl OverflowError, [Call])"
proof -
  have t: "transient ''HTTP Error 429: Too Many Requests''"
    by (simp add: transient_def sublist_Cons_Cons)
  have "[0..2 - 1] = [0, 1::int]"
    by (simp add: upto_rec1)
  then show ?thesis
    using t
    by (simp add: fetch_yahoo_info_with_retry_def always_blocked_def try_get_info_def
        backoff_def time_sleep_def sleep_max_def)
qed

lemma fmp_get_no_key:
  "fmp_get None requests_get path params = Inl (HTTPException 503 FMP_key_not_set)"
  by (simp add: fmp_get_def)

lemma fetch_fmp_info_profile_fails:
  assumes "fmp_get FMP_KEY requests_get (''/profile/'' @ ticker) None = Inl e"
  shows "fetch_fmp_info FMP_KEY requests_get ticker = Inl (HTTPException 502 (FMP_profile_error e))"
  using assms by (simp add: fetch_fmp_info_def)

lemma primary_blocked:
  "fst (fetch_yahoo_info_with_retry always_blocked 4 1.5) = Inl (HTTPException 429 Yahoo_blocked)"
  by code_simp

lemma fetch_fmp_info_objects:
  assumes "fmp_get FMP_KEY requests_get (''/profile/'' @ ticker) None = Inr data"
    and "first_or_empty data = JObj profile"
    and "absorbed (fmp_get FMP_KEY requests_get (''/ratios-ttm/'' @ ticker) None) = JObj ratios"
    and "absorbed (fmp_get FMP_KEY requests_get (''/financial-growth/'' @ ticker) None) = JObj growth"
  shows "fetch_fmp_info FMP_KEY requests_get ticker =
    Inr [(''longName'', py_or (json_get profile ''companyName'') (json_get profile ''symbol'')),
         (''currentPrice'', json_get profile ''price''),
         (''marketCap'', json_get profile ''mktCap''),
         (''forwardPE'', json_get ratios ''priceEarningsRatioTTM''),
         (''pegRatio'', JNull),
         (''grossMargins'', json_get ratios ''grossProfitMarginTTM''),
         (''operatingMargins'', json_get ratios ''operatingProfitMarginTTM''),
         (''revenueGrowth'', json_get growth ''revenueGrowthTTM''),
         (''earningsGrowth'', json_get growth ''epsgrowthTTM''),
         (''returnOnEquity'', json_get ratios ''returnOnEquityTTM''),
         (''returnOnCapitalEmployed'',
            py_or (json_get ratios ''returnOnCapitalEmployedTTM'')
                  (json_get ratios ''returnOnInvestedCapitalTTM'')),
         (''debtToEquity'', json_get ratios ''debtEquityRatioTTM''),
         (''cik'', json_get profile ''cik'')]"
  unfolding fetch_fmp_info_def assms sum.case Let_def prod.case json.case
  by (rule refl)

lemma json_get_Nil: "json_get [] k = JNull"
  by (simp add: json_get_def)

lemma absorbed_Inl: "absorbed (Inl e) = JObj []"
  by (simp add: absorbed_def)

lemma py_or_JNull: "py_or JNull JNull = JNull"
  by (simp add: py_or_def)

lemma fmp_serving_profile:
  "fmp_get (Some ''demo'') (fmp_serving p r g) ''/profile/ACME'' None
     = (if p then Inr (JArr [JObj acme_profile]) else Inl (RequestError ''500 Server Error''))"
  by (simp add: fmp_get_def fmp_serving_def FMP_BASE_def)

lemma fmp_serving_ratios:
  "fmp_get (Some ''demo'') (fmp_serving p r g) ''/ratios-ttm/ACME'' None
     = (if r then Inr (JArr [JObj acme_ratios]) else Inl (RequestError ''500 Server Error''))"
  by (simp add: fmp_get_def fmp_serving_def FMP_BASE_def)

lemma fmp_serving_growth:
  "fmp_get (Some ''demo'') (fmp_serving p r g) ''/financial-growth/ACME'' None
     = (if g then Inr (JArr [JObj acme_growth]) else Inl (RequestError ''500 Server Error''))"
  by (simp add: fmp_get_def fmp_serving_def FMP_BASE_def)

subsection \<open>Claims about the primary client\<close>






subsection \<open>Claims about the fallback client\<close>

text \<open>
  C2 at its failing input: with no key configured, \<^verbatim>\<open>fmp_get\<close> raises the 503 error,
  the handler around the profile request of \<^verbatim>\<open>fetch_fmp_info\<close> catches it and raises
  502 instead, and that is the error of \<^verbatim>\<open>get_company\<close> when the primary provider
  is rate-limited on every attempt.
\<close>

theorem missing_key_surfaces_as_502:
  "fmp_get None requests_get (''/profile/'' @ ticker) None = Inl (HTTPException 503 FMP_key_not_set)
   \<and> fetch_fmp_info None requests_get ticker
     = Inl (HTTPException 502 (FMP_profile_error (HTTPException 503 FMP_key_not_set)))
   \<and> get_company (\<lambda>t. always_blocked) None requests_get respond ticker
     = Inl (HTTPException 502 (FMP_profile_error (HTTPException 503 FMP_key_not_set)))"
proof -
  have "fetch_fmp_info None requests_get ticker
     = Inl (HTTPException 502 (FMP_profile_error (HTTPException 503 FMP_key_not_set)))"
    by (rule fetch_fmp_info_profile_fails) (rule fmp_get_no_key)
  then show ?thesis
    unfolding get_company_def primary_blocked
    by (simp add: fmp_get_no_key)
qed

text \<open>
  C5: a failed profile request fails the fallback fetch with the 502 error. When the
  profile request gives an object and only the ratios request, or only the growth
  request, fails, the fetch succeeds: the profile-derived fields (name, price, market
  cap, identifier) are those of the profile and the fields of the failed request are
  \<^verbatim>\<open>None\<close>.
\<close>

theorem fallback_partial_failure:
  "(fmp_get FMP_KEY requests_get (''/profile/'' @ ticker) None = Inl e
      \<longrightarrow> fetch_fmp_info FMP_KEY requests_get ticker
            = Inl (HTTPException 502 (FMP_profile_error e)))
   \<and> (fmp_get FMP_KEY requests_get (''/profile/'' @ ticker) None = Inr data
        \<and> first_or_empty data = JObj profile
        \<and> fmp_get FMP_KEY requests_get (''/ratios-ttm/'' @ ticker) None = Inl e
        \<and> absorbed (fmp_get FMP_KEY requests_get (''/financial-growth/'' @ ticker) None) = JObj growth
      \<longrightarrow> fetch_fmp_info FMP_KEY requests_get ticker =
          Inr [(''longName'', py_or (json_get profile ''companyName'') (json_get profile ''symbol'')),
               (''currentPrice'', json_get profile ''price''),
               (''marketCap'', json_get profile ''mktCap''),
               (''forwardPE'', JNull),
               (''pegRatio'', JNull),
               (''grossMargins'', JNull),
               (''operatingMargins'', JNull),
               (''revenueGrowth'', json_get growth ''revenueGrowthTTM''),
               (''earningsGrowth'', json_get growth ''epsgrowthTTM''),
               (''returnOnEquity'', JNull),
               (''returnOnCapitalEmployed'', JNull),
               (''debtToEquity'', JNull),
               (''cik'', json_get profile ''cik'')])
   \<and> (fmp_get FMP_KEY requests_get (''/profile/'' @ ticker) None = Inr data
        \<and> first_or_empty data = JObj profile
        \<and> absorbed (fmp_get FMP_KEY requests_get (''/ratios-ttm/'' @ ticker) None) = JObj ratios
        \<and> fmp_get FMP_KEY requests_get (''/financial-growth/'' @ ticker) None = Inl e
      \<longrightarrow> fetch_fmp_info FMP_KEY requests_get ticker =
          Inr [(''longName'', py_or (json_get profile ''companyName'') (json_get profile ''symbol'')),
               (''currentPrice'', json_get profile ''price''),
               (''marketCap'', json_get profile ''mktCap''),
               (''forwardPE'', json_get ratios ''priceEarningsRatioTTM''),
               (''pegRatio'', JNull),
               (''grossMargins'', json_get ratios ''grossProfitMarginTTM''),
               (''operatingMargins'', json_get ratios ''operatingProfitMarginTTM''),
               (''revenueGrowth'', JNull),
               (''earningsGrowth'', JNull),
               (''returnOnEquity'', json_get ratios ''returnOnEquityTTM''),
               (''returnOnCapitalEmployed'',
                  py_or (json_get ratios ''returnOnCapitalEmployedTTM'')
                        (json_get ratios ''returnOnInvestedCapitalTTM'')),
               (''debtToEquity'', json_get ratios ''debtEquityRatioTTM''),
               (''cik'', json_get profile ''cik'')])"
proof (intro conjI impI)
  assume "fmp_get FMP_KEY requests_get (''/profile/'' @ ticker) None = Inl e"
  then show "fetch_fmp_info FMP_KEY requests_get ticker
      = Inl (HTTPException 502 (FMP_profile_error e))"
    by (rule fetch_fmp_info_profile_fails)
next
  assume a: "fmp_get FMP_KEY requests_get (''/profile/'' @ ticker) None = Inr data
        \<and> first_or_empty data = JObj profile
        \<and> fmp_get FMP_KEY requests_get (''/ratios-ttm/'' @ ticker) None = Inl e
        \<and> absorbed (fmp_get FMP_KEY requests_get (''/financial-growth/'' @ ticker) None) = JObj growth"
  then have "absorbed (fmp_get FMP_KEY requests_get (''/ratios-ttm/'' @ ticker) None) = JObj []"
    by (simp add: absorbed_Inl)
  with a show "fetch_fmp_info FMP_KEY requests_get ticker =
          Inr [(''longName'', py_or (json_get profile ''companyName'') (json_get profile ''symbol'')),
               (''currentPrice'', json_get profile ''price''),
               (''marketCap'', json_get profile ''mktCap''),
               (''forwardPE'', JNull),
               (''pegRatio'', JNull),
               (''grossMargins'', JNull),
               (''operatingMargins'', JNull),
               (''revenueGrowth'', json_get growth ''revenueGrowthTTM''),
               (''earningsGrowth'', json_get growth ''epsgrowthTTM''),
               (''returnOnEquity'', JNull),
               (''returnOnCapitalEmployed'', JNull),
               (''debtToEquity'', JNull),
               (''cik'', json_get profile ''cik'')]"
    using fetch_fmp_info_objects [of FMP_KEY requests_get ticker data profile "[]" growth]
    by (simp only: json_get_Nil py_or_JNull)
next
  assume a: "fmp_get FMP_KEY requests_get (''/profile/'' @ ticker) None = Inr data
        \<and> first_or_empty data = JObj profile
        \<and> absorbed (fmp_get FMP_KEY requests_get (''/ratios-ttm/'' @ ticker) None) = JObj ratios
        \<and> fmp_get FMP_KEY requests_get (''/financial-growth/'' @ ticker) None = Inl e"
  then have "absorbed (fmp_get FMP_KEY requests_get (''/financial-growth/'' @ ticker) None) = JObj []"
    by (simp add: absorbed_Inl)
  with a show "fetch_fmp_info FMP_KEY requests_get ticker =
          Inr [(''longName'', py_or (json_get profile ''companyName'') (json_get profile ''symbol'')),
               (''currentPrice'', json_get profile ''price''),
               (''marketCap'', json_get profile ''mktCap''),
               (''forwardPE'', json_get ratios ''priceEarningsRatioTTM''),
               (''pegRatio'', JNull),
               (''grossMargins'', json_get ratios ''grossProfitMarginTTM''),
               (''operatingMargins'', json_get ratios ''operatingProfitMarginTTM''),
               (''revenueGrowth'', JNull),
               (''earningsGrowth'', JNull),
               (''returnOnEquity'', json_get ratios ''returnOnEquityTTM''),
               (''returnOnCapitalEmployed'',
                  py_or (json_get ratios ''returnOnCapitalEmployedTTM'')
                        (json_get ratios ''returnOnInvestedCapitalTTM'')),
               (''debtToEquity'', json_get ratios ''debtEquityRatioTTM''),
               (''cik'', json_get profile ''cik'')]"
    using fetch_fmp_info_objects [of FMP_KEY requests_get ticker data profile ratios "[]"]
    by (simp only: json_get_Nil)
qed

text \<open>C5 for the ticker ACME with the profile, the ratios or the growth request failing.\<close>

theorem fallback_partial_failure_witness:
  "fetch_fmp_info (Some ''demo'') (fmp_serving False True True) ''ACME''
     = Inl (HTTPException 502 (FMP_profile_error (RequestError ''500 Server Error'')))
   \<and> fetch_fmp_info (Some ''demo'') (fmp_serving True False True) ''ACME''
     = Inr [(''longName'', JStr ''Acme Corp''), (''currentPrice'', JNum 50),
            (''marketCap'', JNum 1000000000), (''forwardPE'', JNull), (''pegRatio'', JNull),
            (''grossMargins'', JNull), (''operatingMargins'', JNull),
            (''revenueGrowth'', JNum 0.25), (''earningsGrowth'', JNum 0.22),
            (''returnOnEquity'', JNull), (''returnOnCapitalEmployed'', JNull),
            (''debtToEquity'', JNull), (''cik'', JStr ''0000123456'')]
   \<and> fetch_fmp_info (Some ''demo'') (fmp_serving True True False) ''ACME''
     = Inr [(''longName'', JStr ''Acme Corp''), (''currentPrice'', JNum 50),
            (''marketCap'', JNum 1000000000), (''forwardPE'', JNum 15), (''pegRatio'', JNull),
            (''grossMargins'', JNull), (''operatingMargins'', JNum 0.18),
            (''revenueGrowth'', JNull), (''earningsGrowth'', JNull),
            (''returnOnEquity'', JNull), (''returnOnCapitalEmployed'', JNum 0.14),
            (''debtToEquity'', JNum 0.3), (''cik'', JStr ''0000123456'')]"
proof -
  have profile_down: "fetch_fmp_info (Some ''demo'') (fmp_serving False True True) ''ACME''
     = Inl (HTTPException 502 (FMP_profile_error (RequestError ''500 Server Error'')))"
    using fallback_partial_failure
      [of "Some ''demo''" "fmp_serving False True True" "''ACME''" "RequestError ''500 Server Error''"
        JNull "[]" "[]" "[]"]
    by (simp add: fmp_serving_profile)
  have ratios_down: "fetch_fmp_info (Some ''demo'') (fmp_serving True False True) ''ACME''
     = Inr [(''longName'', py_or (json_get acme_profile ''companyName'') (json_get acme_profile ''symbol'')),
            (''currentPrice'', json_get acme_profile ''price''),
            (''marketCap'', json_get acme_profile ''mktCap''),
            (''forwardPE'', JNull), (''pegRatio'', JNull),
            (''grossMargins'', JNull), (''operatingMargins'', JNull),
            (''revenueGrowth'', json_get acme_growth ''revenueGrowthTTM''),
            (''earningsGrowth'', json_get acme_growth ''epsgrowthTTM''),
            (''returnOnEquity'', JNull), (''returnOnCapitalEmployed'', JNull),
            (''debtToEquity'', JNull), (''cik'', json_get acme_profile ''cik'')]"
    using fallback_partial_failure
      [of "Some ''demo''" "fmp_serving True False True" "''ACME''" "RequestError ''500 Server Error''"
        "JArr [JObj acme_profile]" acme_profile acme_growth "[]"]
    by (simp add: fmp_serving_profile fmp_serving_ratios fmp_serving_growth absorbed_def)
  have growth_down: "fetch_fmp_info (Some ''demo'') (fmp_serving True True False) ''ACME''
     = Inr [(''longName'', py_or (json_get acme_profile ''companyName'') (json_get acme_profile ''symbol'')),
            (''currentPrice'', json_get acme_profile ''price''),
            (''marketCap'', json_get acme_profile ''mktCap''),
            (''forwardPE'', json_get acme_ratios ''priceEarningsRatioTTM''),
            (''pegRatio'', JNull),
            (''grossMargins'', json_get acme_ratios ''grossProfitMarginTTM''),
            (''operatingMargins'', json_get acme_ratios ''operatingProfitMarginTTM''),
            (''revenueGrowth'', JNull), (''earningsGrowth'', JNull),
            (''returnOnEquity'', json_get acme_ratios ''returnOnEquityTTM''),
            (''returnOnCapitalEmployed'',
               py_or (json_get acme_ratios ''returnOnCapitalEmployedTTM'')
                     (json_get acme_ratios ''returnOnInvestedCapitalTTM'')),
            (''debtToEquity'', json_get acme_ratios ''debtEquityRatioTTM''),
            (''cik'', json_get acme_profile ''cik'')]"
    using fallback_partial_failure
      [of "Some ''demo''" "fmp_serving True True False" "''ACME''" "RequestError ''500 Server Error''"
        "JArr [JObj acme_profile]" acme_profile "[]" acme_ratios]
    by (simp add: fmp_serving_profile fmp_serving_ratios fmp_serving_growth absorbed_def)
  show ?thesis
    unfolding profile_down ratios_down growth_down
    by (simp add: json_get_def py_or_def acme_profile_def acme_ratios_def acme_growth_def)
qed

end
